theory Spec2Isabelle
  imports Main
begin

section \<open>Values, errors and the remote endpoint\<close>

text \<open>
  The adapter of \<^verbatim>\<open>herd_ticket_linear/adapter.py\<close> moves JSON-shaped Python values
  around: the decoded response of the GraphQL endpoint, the variables of a request,
  keyword arguments of type \<^verbatim>\<open>Any\<close>. They are modelled by one datatype. A Python
  \<^verbatim>\<open>dict\<close> keeps its insertion order and has one entry per key, so it is an
  association list; \<^verbatim>\<open>None\<close> is \<open>JNull\<close>. Numbers with a fraction are left out.
\<close>

datatype json =
    JNull
  | JBool bool
  | JInt int
  | JStr string
  | JList "json list"
  | JObj "(string \<times> json) list"

type_synonym pydict = "(string \<times> json) list"

text \<open>
  Every \<^verbatim>\<open>raise\<close> of the source and every exception the interpreter raises on the
  way is a value. The source raises plain \<^verbatim>\<open>Exception(message)\<close> and
  \<^verbatim>\<open>ValueError(message)\<close>; the messages of the interpreter's own errors are not
  modelled.
\<close>

datatype error =
    Exception string
  | ValueError string
  | AttributeError
  | KeyError
  | TypeError
  | UnicodeDecodeError

definition bind_err :: "error + 'a \<Rightarrow> ('a \<Rightarrow> error + 'b) \<Rightarrow> error + 'b" where
  "bind_err m f = (case m of Inl e \<Rightarrow> Inl e | Inr x \<Rightarrow> f x)"

fun mapM_err :: "('a \<Rightarrow> error + 'b) \<Rightarrow> 'a list \<Rightarrow> error + 'b list" where
  "mapM_err f [] = Inr []"
| "mapM_err f (x # xs) =
     bind_err (f x) (\<lambda>y. bind_err (mapM_err f xs) (\<lambda>ys. Inr (y # ys)))"

text \<open>Python truth value of a value: \<^verbatim>\<open>if v:\<close>.\<close>

fun truthy :: "json \<Rightarrow> bool" where
  "truthy JNull = False"
| "truthy (JBool b) = b"
| "truthy (JInt n) = (n \<noteq> 0)"
| "truthy (JStr s) = (s \<noteq> [])"
| "truthy (JList xs) = (xs \<noteq> [])"
| "truthy (JObj kvs) = (kvs \<noteq> [])"

text \<open>
  \<^verbatim>\<open>x.get(key, default)\<close>: only a dict has the method, anything else raises
  \<^verbatim>\<open>AttributeError\<close>.
\<close>

fun dict_get :: "json \<Rightarrow> string \<Rightarrow> json \<Rightarrow> error + json" where
  "dict_get (JObj kvs) k d = Inr (case map_of kvs k of Some v \<Rightarrow> v | None \<Rightarrow> d)"
| "dict_get _ k d = Inl AttributeError"

text \<open>\<^verbatim>\<open>d[key] = value\<close> on a dict: an existing key keeps its place.\<close>

fun dict_set :: "pydict \<Rightarrow> string \<Rightarrow> json \<Rightarrow> pydict" where
  "dict_set [] k v = [(k, v)]"
| "dict_set ((k', v') # d) k v =
     (if k' = k then (k, v) # d else (k', v') # dict_set d k v)"

text \<open>
  \<^verbatim>\<open>for x in v\<close>: a list gives its elements, a dict its keys, a string its
  characters (each a string, which no later step of the source accepts), anything else
  raises \<^verbatim>\<open>TypeError\<close>.
\<close>

fun py_iter :: "json \<Rightarrow> error + json list" where
  "py_iter (JList xs) = Inr xs"
| "py_iter (JObj kvs) = Inr (map (\<lambda>kv. JStr (fst kv)) kvs)"
| "py_iter (JStr s) = Inr (map (\<lambda>c. JStr [c]) s)"
| "py_iter _ = Inl TypeError"

text \<open>\<^verbatim>\<open>sep.join(items)\<close>: every item has to be a string.\<close>

fun join :: "string \<Rightarrow> string list \<Rightarrow> string" where
  "join sep [] = []"
| "join sep [x] = x"
| "join sep (x # y # ys) = x @ sep @ join sep (y # ys)"

fun as_str :: "json \<Rightarrow> error + string" where
  "as_str (JStr s) = Inr s"
| "as_str _ = Inl TypeError"

definition py_join :: "string \<Rightarrow> json list \<Rightarrow> error + string" where
  "py_join sep items = bind_err (mapM_err as_str items) (\<lambda>ss. Inr (join sep ss))"

text \<open>Decimal digits of a natural number, for \<^verbatim>\<open>f"{e.code}"\<close>.\<close>

definition digit_char :: "nat \<Rightarrow> char" where
  "digit_char d = char_of (48 + d)"

function str_nat :: "nat \<Rightarrow> string" where
  "str_nat n = (if n < 10 then [digit_char n] else str_nat (n div 10) @ [digit_char (n mod 10)])"
  by pat_completeness auto
termination
  by (relation "measure id") auto

text \<open>
  The five GraphQL documents of the source, by name: the search with the full field
  selection (in \<^verbatim>\<open>get\<close> and \<^verbatim>\<open>list_tickets\<close>), the search selecting
  \<^verbatim>\<open>id\<close> and \<^verbatim>\<open>identifier\<close> only (in \<^verbatim>\<open>update\<close> and
  \<^verbatim>\<open>add_comment\<close>), and the three mutations.
\<close>

datatype document =
    IssueSearchFull
  | IssueSearchIds
  | CreateIssue
  | UpdateIssue
  | CreateComment

text \<open>
  The payload of a request: \<^verbatim>\<open>{"query": query}\<close>, with \<^verbatim>\<open>"variables"\<close>
  added when the variables are given and not empty.
\<close>

record payload =
  query :: document
  variables :: "pydict option"

text \<open>
  What the handler of \<^verbatim>\<open>HTTPError\<close> finds in the exception: an \<^verbatim>\<open>fp\<close> that
  is false, or one whose bytes \<^verbatim>\<open>e.read()\<close> gives and \<^verbatim>\<open>decode("utf-8")\<close>
  either turns into text or rejects with \<^verbatim>\<open>UnicodeDecodeError\<close>.
\<close>

datatype error_fp =
    FalseFp
  | Decoded string
  | Undecodable

text \<open>
  What \<^verbatim>\<open>urlopen\<close> does with a request: a body that decodes to a JSON object, an
  \<^verbatim>\<open>HTTPError\<close> with its status code and its \<^verbatim>\<open>fp\<close>, or a
  \<^verbatim>\<open>URLError\<close> with its reason as text.
\<close>

datatype response =
    Body pydict
  | HTTPError nat error_fp
  | URLError string

text \<open>
  The world outside the adapter: the endpoint, which answers a request knowing the
  requests sent before it, and the two library functions whose results the source uses,
  \<^verbatim>\<open>str\<close> and \<^verbatim>\<open>datetime.fromisoformat\<close> (\<open>Inl m\<close> when it raises
  \<^verbatim>\<open>ValueError(m)\<close> on a malformed string). The state threaded through every
  operation is the list of payloads sent so far, oldest first.
\<close>

record 'dt env =
  net :: "payload list \<Rightarrow> payload \<Rightarrow> response"
  py_str :: "json \<Rightarrow> string"
  fromisoformat :: "string \<Rightarrow> string + 'dt"

type_synonym 'a io = "payload list \<Rightarrow> (error + 'a) \<times> payload list"

definition bind_io :: "'a io \<Rightarrow> ('a \<Rightarrow> 'b io) \<Rightarrow> 'b io" where
  "bind_io m f log = (case m log of
       (Inl e, log') \<Rightarrow> (Inl e, log')
     | (Inr x, log') \<Rightarrow> f x log')"

definition lift_io :: "error + 'a \<Rightarrow> 'a io" where
  "lift_io r log = (r, log)"

section \<open>The adapter\<close>

record adapter =
  api_key :: string
  team_id :: string
  state_mapping :: "string \<rightharpoonup> string"

subsection \<open>\<^verbatim>\<open>_graphql_request\<close>\<close>

text \<open>
  The message of the GraphQL error: \<^verbatim>\<open>"; ".join(e.get("message", str(e)) for e in
  result["errors"])\<close>. \<^verbatim>\<open>join\<close> first collects the generator's items, then checks
  that each is a string.
\<close>

definition error_msg :: "'dt env \<Rightarrow> json \<Rightarrow> error + string" where
  "error_msg E errors =
     bind_err (py_iter errors) (\<lambda>es.
     bind_err (mapM_err (\<lambda>e. dict_get e ''message'' (JStr (py_str E e))) es) (\<lambda>items.
     py_join ''; '' items))"

definition payload_of :: "document \<Rightarrow> pydict option \<Rightarrow> payload" where
  "payload_of q vars =
     \<lparr>query = q,
      variables = (case vars of None \<Rightarrow> None
                   | Some vs \<Rightarrow> if vs = [] then None else Some vs)\<rparr>"

definition graphql_request :: "'dt env \<Rightarrow> document \<Rightarrow> pydict option \<Rightarrow> pydict io" where
  "graphql_request E q vars log =
     (let p = payload_of q vars;
          log' = log @ [p]
      in case net E log p of
           Body result \<Rightarrow>
             (case map_of result ''errors'' of
                Some errors \<Rightarrow>
                  (case error_msg E errors of
                     Inl e \<Rightarrow> (Inl e, log')
                   | Inr msg \<Rightarrow> (Inl (Exception (''Linear GraphQL error: '' @ msg)), log'))
              | None \<Rightarrow> (Inr result, log'))
         | HTTPError code fp \<Rightarrow>
             (case (case fp of
                      FalseFp \<Rightarrow> Inr ''No error body''
                    | Decoded b \<Rightarrow> Inr b
                    | Undecodable \<Rightarrow> Inl UnicodeDecodeError) of
                Inl e \<Rightarrow> (Inl e, log')
              | Inr error_body \<Rightarrow>
                  (Inl (Exception (''Linear API HTTP error '' @ str_nat code @ '': '' @
                                   error_body)),
                   log'))
         | URLError reason \<Rightarrow>
             (Inl (Exception (''Linear API network error: '' @ reason)), log'))"

subsection \<open>\<^verbatim>\<open>_resolve_state_id\<close>\<close>

text \<open>
  \<^verbatim>\<open>re.match(r"^[0-9a-f-]{36}$", status)\<close>. In Python's \<^verbatim>\<open>re\<close>, \<^verbatim>\<open>$\<close>
  matches at the end of the string and also just before a newline that ends the string,
  so the pattern accepts 36 characters of the class and also 36 of them followed by one
  newline. The class holds ASCII characters only, so counting bytes here and code points
  there makes no difference.
\<close>

definition uuid_char :: "char \<Rightarrow> bool" where
  "uuid_char c = (c \<in> set ''0123456789abcdef-'')"

definition re_match_uuid :: "string \<Rightarrow> bool" where
  "re_match_uuid s =
     (list_all uuid_char (take 36 s) \<and>
      (length s = 36 \<or> (length s = 37 \<and> s ! 36 = CHR 0x0A)))"

definition resolve_state_id :: "adapter \<Rightarrow> string \<Rightarrow> error + string" where
  "resolve_state_id A status =
     (if re_match_uuid status then Inr status
      else case state_mapping A status of
             Some v \<Rightarrow> Inr v
           | None \<Rightarrow> Inl (ValueError (''Status '' @ [CHR 0x27] @ status @ [CHR 0x27] @
                                      '' not found in state_mapping and is not a UUID'')))"

subsection \<open>\<^verbatim>\<open>_parse_ticket\<close>\<close>

text \<open>
  \<^verbatim>\<open>TicketPriority\<close>, \<^verbatim>\<open>TicketRecord\<close> and \<^verbatim>\<open>TransitionResult\<close> come
  from the package \<^verbatim>\<open>herd_core\<close>; their fields are the keyword arguments the source
  constructs them with. A field holds what the source puts into it, which for the text
  fields is whatever value the remote issue carries (\<open>JNull\<close> for \<^verbatim>\<open>None\<close>). The
  field \<^verbatim>\<open>id\<close> is \<open>ident\<close> here.
\<close>

datatype TicketPriority = NONE | LOW | NORMAL | HIGH | URGENT

record 'dt TicketRecord =
  ident :: json
  title :: json
  description :: json
  status :: json
  priority :: TicketPriority
  project :: json
  assignee :: json
  labels :: "json list"
  created_at :: "'dt option"
  modified_at :: "'dt option"

record TransitionResult =
  ticket_id :: string
  previous_status :: json
  new_status :: string
  event_type :: string
  elapsed_minutes :: "int option"

text \<open>
  \<^verbatim>\<open>priority_map.get(priority_value, TicketPriority.NONE)\<close> with the keys 0 to 4.
  \<^verbatim>\<open>True\<close> and \<^verbatim>\<open>False\<close> are equal to 1 and 0 and hash alike, so they find
  those keys; a list or a dict cannot be hashed and raises \<^verbatim>\<open>TypeError\<close>.
\<close>

fun priority_map_get :: "json \<Rightarrow> error + TicketPriority" where
  "priority_map_get (JInt n) =
     Inr (if n = 0 then NONE else if n = 1 then URGENT else if n = 2 then HIGH
          else if n = 3 then NORMAL else if n = 4 then LOW else NONE)"
| "priority_map_get (JBool b) = Inr (if b then URGENT else NONE)"
| "priority_map_get JNull = Inr NONE"
| "priority_map_get (JStr s) = Inr NONE"
| "priority_map_get (JList xs) = Inl TypeError"
| "priority_map_get (JObj kvs) = Inl TypeError"

text \<open>\<^verbatim>\<open>label["name"]\<close>: a dict without the key raises \<^verbatim>\<open>KeyError\<close>, any other
  value \<^verbatim>\<open>TypeError\<close>.\<close>

fun subscript_name :: "json \<Rightarrow> error + json" where
  "subscript_name (JObj kvs) = (case map_of kvs ''name'' of Some v \<Rightarrow> Inr v | None \<Rightarrow> Inl KeyError)"
| "subscript_name _ = Inl TypeError"

definition parse_labels :: "json \<Rightarrow> error + json list" where
  "parse_labels issue =
     bind_err (dict_get issue ''labels'' (JObj [])) (\<lambda>ls.
     bind_err (dict_get ls ''nodes'' (JList [])) (\<lambda>ns.
     bind_err (py_iter ns) (\<lambda>items.
     mapM_err subscript_name items)))"

text \<open>\<^verbatim>\<open>s.replace("Z", "+00:00")\<close> replaces every \<^verbatim>\<open>Z\<close>.\<close>

definition replace_Z :: "string \<Rightarrow> string" where
  "replace_Z s = concat (map (\<lambda>c. if c = CHR ''Z'' then ''+00:00'' else [c]) s)"

text \<open>
  \<^verbatim>\<open>if created_str := issue.get("createdAt"): created_at =
  datetime.fromisoformat(created_str.replace("Z", "+00:00"))\<close>: a value that is not
  false and not a string has no \<^verbatim>\<open>replace\<close>.
\<close>

definition parse_timestamp :: "'dt env \<Rightarrow> json \<Rightarrow> error + 'dt option" where
  "parse_timestamp E v =
     (if \<not> truthy v then Inr None
      else case v of
             JStr s \<Rightarrow> (case fromisoformat E (replace_Z s) of
                         Inl m \<Rightarrow> Inl (ValueError m)
                       | Inr d \<Rightarrow> Inr (Some d))
           | _ \<Rightarrow> Inl AttributeError)"

text \<open>\<^verbatim>\<open>issue.get(k, {}).get("name") if issue.get(k) else None\<close>.\<close>

definition nested_name :: "json \<Rightarrow> string \<Rightarrow> error + json" where
  "nested_name issue k =
     bind_err (dict_get issue k JNull) (\<lambda>p.
     if truthy p
     then bind_err (dict_get issue k (JObj [])) (\<lambda>q. dict_get q ''name'' JNull)
     else Inr JNull)"

definition parse_ticket :: "'dt env \<Rightarrow> json \<Rightarrow> error + 'dt TicketRecord" where
  "parse_ticket E issue =
     bind_err (dict_get issue ''priority'' (JInt 0)) (\<lambda>priority_value.
     bind_err (priority_map_get priority_value) (\<lambda>prio.
     bind_err (parse_labels issue) (\<lambda>lbls.
     bind_err (dict_get issue ''createdAt'' JNull) (\<lambda>created_str.
     bind_err (parse_timestamp E created_str) (\<lambda>created.
     bind_err (dict_get issue ''updatedAt'' JNull) (\<lambda>updated_str.
     bind_err (parse_timestamp E updated_str) (\<lambda>modified.
     bind_err (dict_get issue ''id'' (JStr [])) (\<lambda>fallback.
     bind_err (dict_get issue ''identifier'' fallback) (\<lambda>i.
     bind_err (dict_get issue ''title'' (JStr [])) (\<lambda>t.
     bind_err (dict_get issue ''description'' JNull) (\<lambda>d.
     bind_err (dict_get issue ''state'' (JObj [])) (\<lambda>st.
     bind_err (dict_get st ''name'' (JStr [])) (\<lambda>s.
     bind_err (nested_name issue ''project'') (\<lambda>p.
     bind_err (nested_name issue ''assignee'') (\<lambda>a.
     Inr \<lparr>ident = i, title = t, description = d, status = s, priority = prio,
          project = p, assignee = a, labels = lbls,
          created_at = created, modified_at = modified\<rparr>)))))))))))))))"

subsection \<open>Searching a ticket by its identifier\<close>

text \<open>
  \<^verbatim>\<open>nodes = result.get("data", {}).get("issueSearch", {}).get("nodes", [])\<close>,
  then the iteration over \<^verbatim>\<open>nodes\<close>.
\<close>

definition search_nodes :: "pydict \<Rightarrow> error + json list" where
  "search_nodes result =
     bind_err (dict_get (JObj result) ''data'' (JObj [])) (\<lambda>data.
     bind_err (dict_get data ''issueSearch'' (JObj [])) (\<lambda>found.
     bind_err (dict_get found ''nodes'' (JList [])) (\<lambda>nodes.
     py_iter nodes)))"

text \<open>
  The loop of \<^verbatim>\<open>get\<close>, \<^verbatim>\<open>update\<close> and \<^verbatim>\<open>add_comment\<close>:
  \<^verbatim>\<open>for node in nodes: if node.get("identifier") == ticket_id: ...\<close>, leaving at the
  first node that matches.
\<close>

fun find_node :: "string \<Rightarrow> json list \<Rightarrow> error + json option" where
  "find_node tid [] = Inr None"
| "find_node tid (node # rest) =
     bind_err (dict_get node ''identifier'' JNull) (\<lambda>v.
     if v = JStr tid then Inr (Some node) else find_node tid rest)"

definition not_found :: "string \<Rightarrow> error" where
  "not_found tid = Exception (''Ticket '' @ tid @ '' not found'')"

subsection \<open>\<^verbatim>\<open>get\<close>\<close>

definition get :: "'dt env \<Rightarrow> string \<Rightarrow> 'dt TicketRecord io" where
  "get E tid =
     bind_io (graphql_request E IssueSearchFull (Some [(''query'', JStr tid)])) (\<lambda>result.
     lift_io (bind_err (search_nodes result) (\<lambda>nodes.
              bind_err (find_node tid nodes) (\<lambda>m.
              case m of
                Some node \<Rightarrow> parse_ticket E node
              | None \<Rightarrow> Inl (not_found tid)))))"

subsection \<open>\<^verbatim>\<open>create\<close>\<close>

text \<open>
  The keyword arguments \<^verbatim>\<open>description\<close>, \<^verbatim>\<open>team_id\<close>, \<^verbatim>\<open>project_id\<close>,
  \<^verbatim>\<open>priority\<close> and \<^verbatim>\<open>labels\<close> are \<open>desc\<close>, \<open>team\<close>, \<open>proj\<close>, \<open>prio\<close> and
  \<open>lbls\<close>, with the types the source annotates; \<^verbatim>\<open>**kwargs\<close> is a dict. The loop over
  \<^verbatim>\<open>kwargs.items()\<close> is \<open>add_kwargs\<close>.
\<close>

fun add_kwargs :: "pydict \<Rightarrow> pydict \<Rightarrow> pydict" where
  "add_kwargs issue_input [] = issue_input"
| "add_kwargs issue_input ((k, v) # kwargs) =
     add_kwargs (if v \<noteq> JNull then dict_set issue_input k v else issue_input) kwargs"

definition create_input ::
  "adapter \<Rightarrow> string \<Rightarrow> string option \<Rightarrow> string option \<Rightarrow> string option \<Rightarrow> int option \<Rightarrow>
   string list option \<Rightarrow> pydict \<Rightarrow> pydict" where
  "create_input A ttl desc team proj prio lbls kwargs =
     (let i0 = [(''teamId'', JStr (case team of
                                     Some t \<Rightarrow> if t \<noteq> [] then t else team_id A
                                   | None \<Rightarrow> team_id A)),
                (''title'', JStr ttl)];
          i1 = (case desc of
                  Some d \<Rightarrow> if d \<noteq> [] then dict_set i0 ''description'' (JStr d) else i0
                | None \<Rightarrow> i0);
          i2 = (case prio of
                  Some n \<Rightarrow> dict_set i1 ''priority'' (JInt n)
                | None \<Rightarrow> i1);
          i3 = (case proj of
                  Some p \<Rightarrow> if p \<noteq> [] then dict_set i2 ''projectId'' (JStr p) else i2
                | None \<Rightarrow> i2);
          i4 = (case lbls of
                  Some ls \<Rightarrow> if ls \<noteq> [] then dict_set i3 ''labelIds'' (JList (map JStr ls)) else i3
                | None \<Rightarrow> i3)
      in add_kwargs i4 kwargs)"

definition create ::
  "'dt env \<Rightarrow> adapter \<Rightarrow> string \<Rightarrow> string option \<Rightarrow> string option \<Rightarrow> string option \<Rightarrow>
   int option \<Rightarrow> string list option \<Rightarrow> pydict \<Rightarrow> json io" where
  "create E A ttl desc team proj prio lbls kwargs =
     (let issue_input = create_input A ttl desc team proj prio lbls kwargs in
      bind_io (graphql_request E CreateIssue (Some [(''input'', JObj issue_input)])) (\<lambda>result.
      lift_io (bind_err (dict_get (JObj result) ''data'' (JObj [])) (\<lambda>d.
               bind_err (dict_get d ''issueCreate'' (JObj [])) (\<lambda>data.
               bind_err (dict_get data ''success'' JNull) (\<lambda>ok.
               if \<not> truthy ok then Inl (Exception ''Failed to create Linear issue'')
               else bind_err (dict_get data ''issue'' (JObj [])) (\<lambda>issue.
                    bind_err (dict_get issue ''id'' (JStr [])) (\<lambda>fallback.
                    dict_get issue ''identifier'' fallback))))))))"

subsection \<open>\<^verbatim>\<open>update\<close>\<close>

text \<open>\<^verbatim>\<open>if src in fields: issue_input[dst] = fields[src]\<close>.\<close>

definition copy_field :: "pydict \<Rightarrow> string \<Rightarrow> string \<Rightarrow> pydict \<Rightarrow> pydict" where
  "copy_field flds src dst issue_input =
     (case map_of flds src of
        Some v \<Rightarrow> dict_set issue_input dst v
      | None \<Rightarrow> issue_input)"

definition update_input :: "pydict \<Rightarrow> pydict" where
  "update_input flds =
     (let i0 = [];
          i1 = copy_field flds ''title'' ''title'' i0;
          i2 = copy_field flds ''description'' ''description'' i1;
          i3 = copy_field flds ''priority'' ''priority'' i2;
          i4 = copy_field flds ''labels'' ''labelIds'' i3;
          i5 = copy_field flds ''state_id'' ''stateId'' i4;
          i6 = copy_field flds ''assignee_id'' ''assigneeId'' i5;
          i7 = copy_field flds ''project_id'' ''projectId'' i6
      in i7)"

text \<open>
  The search of \<^verbatim>\<open>update\<close> and \<^verbatim>\<open>add_comment\<close> for the internal id:
  \<^verbatim>\<open>issue_id\<close> starts as \<^verbatim>\<open>None\<close> and becomes \<^verbatim>\<open>node.get("id")\<close> of the
  first node whose identifier matches.
\<close>

definition find_issue_id :: "string \<Rightarrow> pydict \<Rightarrow> error + json" where
  "find_issue_id tid result =
     bind_err (search_nodes result) (\<lambda>nodes.
     bind_err (find_node tid nodes) (\<lambda>m.
     case m of
       Some node \<Rightarrow> dict_get node ''id'' JNull
     | None \<Rightarrow> Inr JNull))"

text \<open>\<^verbatim>\<open>data = result.get("data", {}).get(name, {}); if not data.get("success"): raise\<close>.\<close>

definition check_success :: "pydict \<Rightarrow> string \<Rightarrow> error \<Rightarrow> error + unit" where
  "check_success result name failure =
     bind_err (dict_get (JObj result) ''data'' (JObj [])) (\<lambda>d.
     bind_err (dict_get d name (JObj [])) (\<lambda>data.
     bind_err (dict_get data ''success'' JNull) (\<lambda>ok.
     if \<not> truthy ok then Inl failure else Inr ())))"

definition update :: "'dt env \<Rightarrow> string \<Rightarrow> pydict \<Rightarrow> unit io" where
  "update E tid flds =
     (let issue_input = update_input flds in
      bind_io (graphql_request E IssueSearchIds (Some [(''query'', JStr tid)])) (\<lambda>result.
      bind_io (lift_io (find_issue_id tid result)) (\<lambda>issue_id.
      if \<not> truthy issue_id then lift_io (Inl (not_found tid))
      else bind_io (graphql_request E UpdateIssue
                      (Some [(''id'', issue_id), (''input'', JObj issue_input)])) (\<lambda>result'.
           lift_io (check_success result' ''issueUpdate''
                      (Exception (''Failed to update ticket '' @ tid)))))))"

subsection \<open>\<^verbatim>\<open>add_comment\<close>\<close>

definition add_comment :: "'dt env \<Rightarrow> string \<Rightarrow> string \<Rightarrow> unit io" where
  "add_comment E tid body =
     bind_io (graphql_request E IssueSearchIds (Some [(''query'', JStr tid)])) (\<lambda>result.
     bind_io (lift_io (find_issue_id tid result)) (\<lambda>issue_id.
     if \<not> truthy issue_id then lift_io (Inl (not_found tid))
     else bind_io (graphql_request E CreateComment
                     (Some [(''input'', JObj [(''issueId'', issue_id), (''body'', JStr body)])]))
            (\<lambda>result'.
          lift_io (check_success result' ''commentCreate''
                     (Exception (''Failed to add comment to ticket '' @ tid))))))"

subsection \<open>\<^verbatim>\<open>transition\<close>\<close>

definition transition ::
  "'dt env \<Rightarrow> adapter \<Rightarrow> string \<Rightarrow> string \<Rightarrow> string option \<Rightarrow> string list option \<Rightarrow>
   TransitionResult io" where
  "transition E A tid to_status note blocked_by =
     bind_io (get E tid) (\<lambda>current_ticket.
     bind_io (lift_io (resolve_state_id A to_status)) (\<lambda>state_id.
     bind_io (update E tid [(''state_id'', JStr state_id)]) (\<lambda>_.
     bind_io (case note of
                Some n \<Rightarrow> if n \<noteq> [] then add_comment E tid n else lift_io (Inr ())
              | None \<Rightarrow> lift_io (Inr ())) (\<lambda>_.
     lift_io (Inr \<lparr>ticket_id = tid,
                   previous_status = status current_ticket,
                   new_status = to_status,
                   event_type =
                     (if to_status = ''blocked'' \<or>
                         (case blocked_by of Some bs \<Rightarrow> bs \<noteq> [] | None \<Rightarrow> False)
                      then ''blocked''
                      else if status current_ticket = JStr ''blocked'' \<and> to_status \<noteq> ''blocked''
                      then ''unblocked''
                      else ''status_changed''),
                   elapsed_minutes = None\<rparr>)))))"

subsection \<open>\<^verbatim>\<open>list_tickets\<close>\<close>

text \<open>
  \<^verbatim>\<open>f"status:{filters['status']}"\<close> formats a string as itself and any other value
  by \<^verbatim>\<open>str\<close>; the free-text query is appended as it is.
\<close>

definition fmt :: "'dt env \<Rightarrow> json \<Rightarrow> string" where
  "fmt E v = (case v of JStr s \<Rightarrow> s | _ \<Rightarrow> py_str E v)"

definition query_parts :: "'dt env \<Rightarrow> pydict \<Rightarrow> json list" where
  "query_parts E filters =
     (let p0 = [];
          p1 = (case map_of filters ''status'' of
                  Some v \<Rightarrow> p0 @ [JStr (''status:'' @ fmt E v)] | None \<Rightarrow> p0);
          p2 = (case map_of filters ''assignee'' of
                  Some v \<Rightarrow> p1 @ [JStr (''assignee:'' @ fmt E v)] | None \<Rightarrow> p1);
          p3 = (case map_of filters ''project'' of
                  Some v \<Rightarrow> p2 @ [JStr (''project:'' @ fmt E v)] | None \<Rightarrow> p2);
          p4 = (case map_of filters ''query'' of
                  Some v \<Rightarrow> p3 @ [v] | None \<Rightarrow> p3)
      in p4)"

definition search_query :: "'dt env \<Rightarrow> pydict \<Rightarrow> error + string" where
  "search_query E filters =
     (let parts = query_parts E filters
      in if parts \<noteq> [] then py_join '' '' parts else Inr ''*'')"

definition list_tickets :: "'dt env \<Rightarrow> pydict \<Rightarrow> 'dt TicketRecord list io" where
  "list_tickets E filters =
     bind_io (lift_io (search_query E filters)) (\<lambda>q.
     bind_io (graphql_request E IssueSearchFull (Some [(''query'', JStr q)])) (\<lambda>result.
     lift_io (bind_err (search_nodes result) (\<lambda>nodes.
              mapM_err (parse_ticket E) nodes))))"

section \<open>Fixtures\<close>

text \<open>
  The adapter of the test suite, and an endpoint that holds the one ticket
  \<^verbatim>\<open>DBC-123\<close> in state \<^verbatim>\<open>Backlog\<close> and answers every mutation with success.
\<close>

definition test_adapter :: adapter where
  "test_adapter =
     \<lparr>api_key = ''test-api-key'',
      team_id = ''test-team-id'',
      state_mapping =
        [''backlog'' \<mapsto> ''f98ff170-87bd-4a1c-badc-4b67cd37edec'',
         ''in_progress'' \<mapsto> ''77631f63-b27b-45a5-8b04-f9f82b4facde'',
         ''done'' \<mapsto> ''42bad6cf-cfb7-4dd2-9dc4-c0c3014bfc5f'']\<rparr>"

definition test_fields :: pydict where
  "test_fields =
     [(''id'', JStr ''issue-uuid''),
      (''identifier'', JStr ''DBC-123''),
      (''title'', JStr ''Test''),
      (''state'', JObj [(''id'', JStr ''old-state''), (''name'', JStr ''Backlog'')]),
      (''priority'', JInt 1),
      (''labels'', JObj [(''nodes'', JList [])])]"

definition test_issue :: json where
  "test_issue = JObj test_fields"

definition search_result :: "json list \<Rightarrow> pydict" where
  "search_result nodes =
     [(''data'', JObj [(''issueSearch'', JObj [(''nodes'', JList nodes)])])]"

definition success_result :: "string \<Rightarrow> pydict" where
  "success_result name =
     [(''data'', JObj [(name, JObj [(''success'', JBool True),
                                    (''issue'', JObj [(''id'', JStr ''issue-uuid''),
                                                      (''identifier'', JStr ''DBC-123'')])])])]"

definition test_net :: "payload list \<Rightarrow> payload \<Rightarrow> response" where
  "test_net log p =
     (case query p of
        IssueSearchFull \<Rightarrow> Body (search_result [test_issue])
      | IssueSearchIds \<Rightarrow>
          Body (search_result [JObj [(''id'', JStr ''issue-uuid''),
                                     (''identifier'', JStr ''DBC-123'')]])
      | CreateIssue \<Rightarrow> Body (success_result ''issueCreate'')
      | UpdateIssue \<Rightarrow> Body (success_result ''issueUpdate'')
      | CreateComment \<Rightarrow> Body (success_result ''commentCreate''))"

definition test_env :: "string env" where
  "test_env = \<lparr>net = test_net, py_str = (\<lambda>v. []), fromisoformat = (\<lambda>s. Inr s)\<rparr>"

text \<open>An endpoint that answers every request with two GraphQL errors.\<close>

definition failing_env :: "string env" where
  "failing_env =
     \<lparr>net = (\<lambda>log p. Body [(''errors'',
                JList [JObj [(''message'', JStr ''Authentication failed'')],
                       JObj [(''message'', JStr ''Invalid query'')]])]),
      py_str = (\<lambda>v. []),
      fromisoformat = (\<lambda>s. Inr s)\<rparr>"

section \<open>Vocabulary of the properties\<close>

text \<open>A search-result node is a JSON object; its identifier is its \<^verbatim>\<open>identifier\<close>
  entry, and it equals a ticket identifier when it is that very string.\<close>

definition is_object :: "json \<Rightarrow> bool" where
  "is_object v = (case v of JObj kvs \<Rightarrow> True | _ \<Rightarrow> False)"

definition has_identifier :: "string \<Rightarrow> json \<Rightarrow> bool" where
  "has_identifier tid node =
     (case node of JObj kvs \<Rightarrow> map_of kvs ''identifier'' = Some (JStr tid) | _ \<Rightarrow> False)"

text \<open>The priority levels in the words of the specification: the integers 0 to 4 are
  NONE, URGENT, HIGH, NORMAL, LOW, and any other integer is NONE.\<close>

definition spec_priority :: "int \<Rightarrow> TicketPriority" where
  "spec_priority n =
     (case map_of [(0, NONE), (1, URGENT), (2, HIGH), (3, NORMAL), (4, LOW)] n of
        Some p \<Rightarrow> p
      | None \<Rightarrow> NONE)"

text \<open>A token is UUID-shaped when it is 36 characters, each a digit, a letter from
  \<^verbatim>\<open>a\<close> to \<^verbatim>\<open>f\<close> or a hyphen.\<close>

definition uuid_shaped :: "string \<Rightarrow> bool" where
  "uuid_shaped s = (length s = 36 \<and> list_all uuid_char s)"

text \<open>The search term in the words of the specification: the fragments
  \<^verbatim>\<open>status:\<close>, \<^verbatim>\<open>assignee:\<close>, \<^verbatim>\<open>project:\<close> with their values for the filters
  that are present, then the free-text query, joined with single spaces; the match-all
  token when none of the four is given.\<close>

definition spec_search_term :: "'dt env \<Rightarrow> pydict \<Rightarrow> string" where
  "spec_search_term E filters =
     (let fragments =
            concat (map (\<lambda>k. case map_of filters k of
                                 Some v \<Rightarrow> [k @ '':'' @ fmt E v]
                               | None \<Rightarrow> [])
                        [''status'', ''assignee'', ''project''])
            @ (case map_of filters ''query'' of Some (JStr q) \<Rightarrow> [q] | _ \<Rightarrow> [])
      in if \<forall>k \<in> set [''status'', ''assignee'', ''project'', ''query'']. map_of filters k = None
         then ''*''
         else join '' '' fragments)"

text \<open>The recognized fields of \<^verbatim>\<open>update\<close> with their names in the remote schema.\<close>

definition remote_names :: "(string \<times> string) list" where
  "remote_names =
     [(''title'', ''title''), (''description'', ''description''), (''priority'', ''priority''),
      (''labels'', ''labelIds''), (''state_id'', ''stateId''),
      (''assignee_id'', ''assigneeId''), (''project_id'', ''projectId'')]"

section \<open>Properties\<close>

subsection \<open>Basic facts\<close>

lemma bind_err_simps [simp]:
  "bind_err (Inl e) f = Inl e"
  "bind_err (Inr x) f = f x"
  by (simp_all add: bind_err_def)

lemma bind_err_Inr_iff: "bind_err m f = Inr y \<longleftrightarrow> (\<exists>x. m = Inr x \<and> f x = Inr y)"
  by (cases m) simp_all

lemma bind_err_Inl_iff:
  "bind_err m f = Inl e \<longleftrightarrow> m = Inl e \<or> (\<exists>x. m = Inr x \<and> f x = Inl e)"
  by (cases m) simp_all

lemma map_of_dict_set: "map_of (dict_set d k v) = (map_of d)(k \<mapsto> v)"
  by (induction d) (auto simp: fun_eq_iff)

lemma map_of_remove_key:
  "map_of (filter (\<lambda>kv. fst kv \<noteq> k) kvs) k' = (if k' = k then None else map_of kvs k')"
  by (induction kvs) auto

subsection \<open>Priority of a parsed ticket\<close>

lemma parse_ticket_priority_value:
  assumes "parse_ticket E (JObj kvs) = Inr r"
  shows "priority_map_get (case map_of kvs ''priority'' of Some v \<Rightarrow> v | None \<Rightarrow> JInt 0)
         = Inr (priority r)"
  using assms by (auto simp: parse_ticket_def bind_err_Inr_iff)

lemma parse_test_issue:
  "parse_ticket test_env test_issue =
     Inr \<lparr>ident = JStr ''DBC-123'', title = JStr ''Test'', description = JNull,
          status = JStr ''Backlog'', priority = URGENT, project = JNull, assignee = JNull,
          labels = [], created_at = None, modified_at = None\<rparr>"
  by (simp add: parse_ticket_def test_issue_def test_fields_def test_env_def parse_labels_def
      parse_timestamp_def nested_name_def)

lemma priority_map_get_int: "priority_map_get (JInt n) = Inr (spec_priority n)"
  by (simp add: spec_priority_def)

lemma parse_ticket_set_priority:
  assumes "parse_ticket E (JObj kvs) = Inr r" and "priority_map_get v = Inr p"
  shows "parse_ticket E (JObj (dict_set kvs ''priority'' v)) = Inr (r\<lparr>priority := p\<rparr>)"
  using assms
  by (auto simp: parse_ticket_def bind_err_Inr_iff parse_labels_def nested_name_def
      map_of_dict_set)

lemma parse_ticket_remove_priority:
  assumes "parse_ticket E (JObj kvs) = Inr r"
  shows "parse_ticket E (JObj (filter (\<lambda>kv. fst kv \<noteq> ''priority'') kvs))
         = Inr (r\<lparr>priority := NONE\<rparr>)"
  using assms
  by (auto simp: parse_ticket_def bind_err_Inr_iff parse_labels_def nested_name_def
      map_of_remove_key)

text \<open>
  C3. The priority lookup of the response parser gives NONE, URGENT, HIGH, NORMAL, LOW
  for the integers 0, 1, 2, 3, 4 and NONE for every other integer, and never fails on an
  integer. A record that the parser returns for a remote issue has the level of the
  issue's priority integer, and NONE when the issue has no priority field; the same
  issue with its priority set to any integer, or with its priority field taken away, is
  parsed too, into the same record with that integer's level, or with NONE.
\<close>

theorem parse_ticket_priority:
  "priority_map_get (JInt 0) = Inr NONE \<and>
   priority_map_get (JInt 1) = Inr URGENT \<and>
   priority_map_get (JInt 2) = Inr HIGH \<and>
   priority_map_get (JInt 3) = Inr NORMAL \<and>
   priority_map_get (JInt 4) = Inr LOW \<and>
   (n \<notin> {0, 1, 2, 3, 4} \<longrightarrow> priority_map_get (JInt n) = Inr NONE) \<and>
   priority_map_get (JInt n) = Inr (spec_priority n) \<and>
   (parse_ticket E (JObj kvs) = Inr r \<longrightarrow>
      (map_of kvs ''priority'' = Some (JInt n) \<longrightarrow> priority r = spec_priority n) \<and>
      (map_of kvs ''priority'' = None \<longrightarrow> priority r = NONE) \<and>
      parse_ticket E (JObj (dict_set kvs ''priority'' (JInt n)))
        = Inr (r\<lparr>priority := spec_priority n\<rparr>) \<and>
      parse_ticket E (JObj (filter (\<lambda>kv. fst kv \<noteq> ''priority'') kvs))
        = Inr (r\<lparr>priority := NONE\<rparr>))"
proof -
  have v: "priority_map_get (JInt n) = Inr (spec_priority n)"
    by (rule priority_map_get_int)
  have p: "(map_of kvs ''priority'' = Some (JInt n) \<longrightarrow> priority r = spec_priority n) \<and>
      (map_of kvs ''priority'' = None \<longrightarrow> priority r = NONE)"
    if "parse_ticket E (JObj kvs) = Inr r"
    using parse_ticket_priority_value [OF that] v by (auto split: option.splits)
  show ?thesis
    using v p parse_ticket_set_priority [of E kvs r "JInt n" "spec_priority n"]
      parse_ticket_remove_priority [of E kvs r]
    by simp
qed

theorem parse_ticket_priority_witness:
  "priority_map_get (JInt 4) = Inr LOW \<and>
   (case parse_ticket test_env (JObj test_fields) of
      Inr r \<Rightarrow> priority r = URGENT
    | Inl e \<Rightarrow> False) \<and>
   (case parse_ticket test_env (JObj (dict_set test_fields ''priority'' (JInt 4))) of
      Inr r \<Rightarrow> priority r = LOW
    | Inl e \<Rightarrow> False) \<and>
   (case parse_ticket test_env (JObj (filter (\<lambda>kv. fst kv \<noteq> ''priority'') test_fields)) of
      Inr r \<Rightarrow> priority r = NONE
    | Inl e \<Rightarrow> False)"
proof -
  have h: "parse_ticket test_env (JObj test_fields) =
     Inr \<lparr>ident = JStr ''DBC-123'', title = JStr ''Test'', description = JNull,
          status = JStr ''Backlog'', priority = URGENT, project = JNull, assignee = JNull,
          labels = [], created_at = None, modified_at = None\<rparr>"
    using parse_test_issue by (simp add: test_issue_def)
  have s: "spec_priority 4 = LOW"
    by (simp add: spec_priority_def)
  from parse_ticket_priority [of 4 test_env test_fields
      "\<lparr>ident = JStr ''DBC-123'', title = JStr ''Test'', description = JNull,
          status = JStr ''Backlog'', priority = URGENT, project = JNull, assignee = JNull,
          labels = [], created_at = None, modified_at = None\<rparr>"] h s
  show ?thesis
    by simp
qed

subsection \<open>Status resolution\<close>

text \<open>
  Away from the tokens that are 36 characters of the class followed by one newline, the
  resolver returns a UUID-shaped token unchanged, whatever the mapping holds, returns the
  mapping's value for any other token that is a key, and fails with the error naming the
  status exactly for the tokens that are neither.
\<close>

lemma resolve_state_id_spec:
  assumes "\<not> (length tok = 37 \<and> tok ! 36 = CHR 0x0A)"
  shows "resolve_state_id A tok =
           (if uuid_shaped tok then Inr tok
            else case state_mapping A tok of
                   Some v \<Rightarrow> Inr v
                 | None \<Rightarrow> Inl (ValueError (''Status '' @ [CHR 0x27] @ tok @ [CHR 0x27] @
                                            '' not found in state_mapping and is not a UUID'')))"
  using assms by (auto simp: resolve_state_id_def re_match_uuid_def uuid_shaped_def)

text \<open>
  C2. A token of 36 characters of the class followed by one newline is not UUID-shaped
  and, here, not a key of the mapping; the resolver returns it instead of failing.
\<close>

theorem resolve_state_id_trailing_newline:
  "\<not> uuid_shaped (''00000000-0000-0000-0000-000000000000'' @ [CHR 0x0A]) \<and>
   state_mapping \<lparr>api_key = ''test'', team_id = ''test'', state_mapping = Map.empty\<rparr>
     (''00000000-0000-0000-0000-000000000000'' @ [CHR 0x0A]) = None \<and>
   resolve_state_id \<lparr>api_key = ''test'', team_id = ''test'', state_mapping = Map.empty\<rparr>
     (''00000000-0000-0000-0000-000000000000'' @ [CHR 0x0A])
   = Inr (''00000000-0000-0000-0000-000000000000'' @ [CHR 0x0A])"
  by (simp add: resolve_state_id_def re_match_uuid_def uuid_char_def uuid_shaped_def)

subsection \<open>GraphQL errors\<close>

lemma mapM_err_messages:
  assumes "list_all2 (\<lambda>e m. \<exists>kvs. e = JObj kvs \<and> map_of kvs ''message'' = Some (JStr m)) errs msgs"
  shows "mapM_err (\<lambda>e. dict_get e ''message'' (JStr (py_str E e))) errs = Inr (map JStr msgs)"
  using assms by (induction errs msgs rule: list_all2_induct) auto

lemma mapM_err_as_str: "mapM_err as_str (map JStr ss) = Inr ss"
  by (induction ss) simp_all

lemma error_msg_messages:
  assumes "list_all2 (\<lambda>e m. \<exists>kvs. e = JObj kvs \<and> map_of kvs ''message'' = Some (JStr m)) errs msgs"
  shows "error_msg E (JList errs) = Inr (join ''; '' msgs)"
  by (simp add: error_msg_def py_join_def mapM_err_messages [OF assms] mapM_err_as_str)

text \<open>
  C9. When the response to a request has a top-level \<^verbatim>\<open>errors\<close> array, each entry an
  object with a text \<^verbatim>\<open>message\<close>, the request fails with the error whose message is
  \<^verbatim>\<open>Linear GraphQL error: \<close> followed by all the messages, in order, joined with
  \<^verbatim>\<open>; \<close>, for an array of any length.
\<close>

theorem graphql_errors_joined:
  assumes "net E log (payload_of q vars) = Body result"
    and "map_of result ''errors'' = Some (JList errs)"
    and "list_all2 (\<lambda>e m. \<exists>kvs. e = JObj kvs \<and> map_of kvs ''message'' = Some (JStr m)) errs msgs"
  shows "fst (graphql_request E q vars log)
         = Inl (Exception (''Linear GraphQL error: '' @ join ''; '' msgs))"
  using assms(1,2) by (simp add: graphql_request_def Let_def error_msg_messages [OF assms(3)])

theorem graphql_errors_joined_witness:
  "fst (graphql_request failing_env IssueSearchFull (Some [(''query'', JStr ''DBC-123'')]) [])
   = Inl (Exception ''Linear GraphQL error: Authentication failed; Invalid query'')"
  using graphql_errors_joined [of failing_env "[]" IssueSearchFull
      "Some [(''query'', JStr ''DBC-123'')]"
      "[(''errors'', JList [JObj [(''message'', JStr ''Authentication failed'')],
                            JObj [(''message'', JStr ''Invalid query'')]])]"
      "[JObj [(''message'', JStr ''Authentication failed'')],
        JObj [(''message'', JStr ''Invalid query'')]]"
      "[''Authentication failed'', ''Invalid query'']"]
  by (simp add: failing_env_def)

subsection \<open>Requests that are answered\<close>

lemma graphql_request_ok:
  assumes "net E log (payload_of q vars) = Body result" and "map_of result ''errors'' = None"
  shows "graphql_request E q vars log = (Inr result, log @ [payload_of q vars])"
  using assms by (simp add: graphql_request_def Let_def)

lemma graphql_request_log: "snd (graphql_request E q vars log) = log @ [payload_of q vars]"
  by (simp add: graphql_request_def Let_def
      split: response.splits option.splits sum.splits error_fp.splits)

lemma bind_io_Inr [simp]: "m log = (Inr x, log') \<Longrightarrow> bind_io m f log = f x log'"
  by (simp add: bind_io_def)

lemma bind_io_Inl [simp]: "m log = (Inl e, log') \<Longrightarrow> bind_io m f log = (Inl e, log')"
  by (simp add: bind_io_def)

lemma lift_io_apply [simp]: "lift_io r log = (r, log)"
  by (simp add: lift_io_def)

subsection \<open>Fetching a ticket\<close>

lemma find_node_objects:
  assumes "list_all is_object nodes"
  shows "find_node tid nodes = Inr (find (has_identifier tid) nodes)"
  using assms
  by (induction nodes) (auto simp: is_object_def has_identifier_def split: json.splits option.splits)

lemma mapM_err_no_Exception:
  assumes "\<And>x. f x \<noteq> Inl (Exception m)"
  shows "mapM_err f xs \<noteq> Inl (Exception m)"
  using assms by (induction xs) (auto simp: bind_err_Inl_iff)

lemma dict_get_no_Exception [simp]: "dict_get v k d \<noteq> Inl (Exception m)"
  by (cases v) simp_all

lemma priority_map_get_no_Exception [simp]: "priority_map_get v \<noteq> Inl (Exception m)"
  by (cases v) simp_all

lemma subscript_name_no_Exception [simp]: "subscript_name v \<noteq> Inl (Exception m)"
  by (cases v) (simp_all split: option.splits)

lemma py_iter_no_Exception [simp]: "py_iter v \<noteq> Inl (Exception m)"
  by (cases v) simp_all

lemma parse_labels_no_Exception [simp]: "parse_labels v \<noteq> Inl (Exception m)"
  by (simp add: parse_labels_def bind_err_Inl_iff mapM_err_no_Exception)

lemma parse_timestamp_no_Exception [simp]: "parse_timestamp E v \<noteq> Inl (Exception m)"
  by (simp add: parse_timestamp_def split: json.splits sum.splits)

lemma nested_name_no_Exception [simp]: "nested_name v k \<noteq> Inl (Exception m)"
  by (simp add: nested_name_def bind_err_Inl_iff)

lemma parse_ticket_no_Exception: "parse_ticket E node \<noteq> Inl (Exception m)"
  by (simp add: parse_ticket_def bind_err_Inl_iff)

lemma search_nodes_shape:
  assumes "map_of result ''data'' = Some (JObj data)"
    and "map_of data ''issueSearch'' = Some (JObj found)"
    and "map_of found ''nodes'' = Some (JList nodes)"
  shows "search_nodes result = Inr nodes"
  using assms by (simp add: search_nodes_def)

text \<open>
  C5. When the search that \<^verbatim>\<open>get\<close> sends is answered without errors by a response
  whose \<^verbatim>\<open>data.issueSearch.nodes\<close> is a list of node objects, \<^verbatim>\<open>get\<close> gives what
  the parser gives for the first node of that list whose identifier is exactly the ticket
  identifier, and it fails with the not-found error if and only if no node of the list
  has exactly that identifier (in particular when the list is empty).
\<close>

theorem get_first_exact_match:
  assumes "net E log \<lparr>query = IssueSearchFull, variables = Some [(''query'', JStr tid)]\<rparr>
           = Body result"
    and "map_of result ''errors'' = None"
    and "map_of result ''data'' = Some (JObj data)"
    and "map_of data ''issueSearch'' = Some (JObj found)"
    and "map_of found ''nodes'' = Some (JList nodes)"
    and "list_all is_object nodes"
  shows "fst (get E tid log) =
           (case find (has_identifier tid) nodes of
              Some node \<Rightarrow> parse_ticket E node
            | None \<Rightarrow> Inl (Exception (''Ticket '' @ tid @ '' not found'')))
         \<and> (fst (get E tid log) = Inl (Exception (''Ticket '' @ tid @ '' not found''))
              \<longleftrightarrow> \<not> (\<exists>node \<in> set nodes. has_identifier tid node))"
proof -
  have n: "net E log (payload_of IssueSearchFull (Some [(''query'', JStr tid)])) = Body result"
    using assms(1) by (simp add: payload_of_def)
  have g: "fst (get E tid log) =
           (case find (has_identifier tid) nodes of
              Some node \<Rightarrow> parse_ticket E node
            | None \<Rightarrow> Inl (not_found tid))"
    by (simp add: get_def graphql_request_ok [OF n assms(2)]
        search_nodes_shape [OF assms(3,4,5)] find_node_objects [OF assms(6)])
  have e: "Exception (''Ticket '' @ tid @ '' not found'') = not_found tid"
    by (simp add: not_found_def)
  have "parse_ticket E node \<noteq> Inl (not_found tid)" for node
    by (simp add: not_found_def parse_ticket_no_Exception)
  then show ?thesis
    unfolding g e
    by (auto simp: find_None_iff find_Some_iff split: option.splits)
qed

theorem get_first_exact_match_witness:
  "fst (get test_env ''DBC-123'' []) = parse_ticket test_env test_issue \<and>
   fst (get test_env ''DBC-999'' []) = Inl (Exception ''Ticket DBC-999 not found'')"
proof -
  have a: "net test_env [] \<lparr>query = IssueSearchFull, variables = Some [(''query'', JStr tid)]\<rparr>
           = Body (search_result [test_issue])" for tid
    by (simp add: test_env_def test_net_def)
  have b: "map_of (search_result [test_issue]) ''errors'' = None"
    by (simp add: search_result_def)
  have c1: "map_of (search_result [test_issue]) ''data''
            = Some (JObj [(''issueSearch'', JObj [(''nodes'', JList [test_issue])])])"
    by (simp add: search_result_def)
  have c2: "map_of [(''issueSearch'', JObj [(''nodes'', JList [test_issue])])] ''issueSearch''
            = Some (JObj [(''nodes'', JList [test_issue])])"
    by simp
  have c3: "map_of [(''nodes'', JList [test_issue])] ''nodes'' = Some (JList [test_issue])"
    by simp
  have d: "list_all is_object [test_issue]"
    by (simp add: is_object_def test_issue_def)
  show ?thesis
    using get_first_exact_match [OF a b c1 c2 c3 d, of "''DBC-123''"]
      get_first_exact_match [OF a b c1 c2 c3 d, of "''DBC-999''"]
    by (simp add: has_identifier_def test_issue_def test_fields_def)
qed

subsection \<open>Listing tickets\<close>

lemma mapM_err_Inr_iff:
  "mapM_err f xs = Inr ys \<longleftrightarrow> list_all2 (\<lambda>x y. f x = Inr y) xs ys"
proof (induction xs arbitrary: ys)
  case Nil
  then show ?case by auto
next
  case (Cons x xs)
  then show ?case
    by (cases ys) (auto simp: bind_err_Inr_iff)
qed

lemma py_join_strings: "py_join sep (map JStr ss) = Inr (join sep ss)"
  by (simp add: py_join_def mapM_err_as_str)

lemma search_query_spec:
  assumes "\<forall>v. map_of filters ''query'' = Some v \<longrightarrow> (\<exists>q. v = JStr q)"
  shows "search_query E filters = Inr (spec_search_term E filters)"
proof -
  define ss where "ss = concat (map (\<lambda>k. case map_of filters k of
                                 Some v \<Rightarrow> [k @ '':'' @ fmt E v]
                               | None \<Rightarrow> [])
                        [''status'', ''assignee'', ''project''])
            @ (case map_of filters ''query'' of Some (JStr q) \<Rightarrow> [q] | _ \<Rightarrow> [])"
  have ss: "query_parts E filters = map JStr ss"
    using assms by (auto simp: query_parts_def ss_def Let_def split: option.splits)
  have e: "ss = [] \<longleftrightarrow>
           (\<forall>k \<in> set [''status'', ''assignee'', ''project'', ''query'']. map_of filters k = None)"
    using assms by (auto simp: ss_def split: option.splits json.splits)
  show ?thesis
    unfolding search_query_def Let_def ss spec_search_term_def ss_def [symmetric]
    using e by (simp add: py_join_strings)
qed

text \<open>
  C6. With a free-text query that is a string when given, \<^verbatim>\<open>list_tickets\<close> builds
  the search term of the specification and sends it as the one request of the call; when
  the endpoint answers without errors by a response whose
  \<^verbatim>\<open>data.issueSearch.nodes\<close> is a list, the call returns exactly the list of the
  parsed records of all the nodes of that list, in order (and so returns when every node
  parses).
\<close>

theorem list_tickets_search:
  assumes "\<forall>v. map_of filters ''query'' = Some v \<longrightarrow> (\<exists>q. v = JStr q)"
  shows "search_query E filters = Inr (spec_search_term E filters)
       \<and> snd (list_tickets E filters log) =
           log @ [\<lparr>query = IssueSearchFull,
                    variables = Some [(''query'', JStr (spec_search_term E filters))]\<rparr>]
       \<and> (net E log \<lparr>query = IssueSearchFull,
                      variables = Some [(''query'', JStr (spec_search_term E filters))]\<rparr>
            = Body result \<and>
          map_of result ''errors'' = None \<and>
          map_of result ''data'' = Some (JObj data) \<and>
          map_of data ''issueSearch'' = Some (JObj found) \<and>
          map_of found ''nodes'' = Some (JList nodes) \<longrightarrow>
          (\<forall>rs. fst (list_tickets E filters log) = Inr rs \<longleftrightarrow>
                list_all2 (\<lambda>node r. parse_ticket E node = Inr r) nodes rs))"
proof -
  let ?p = "\<lparr>query = IssueSearchFull,
             variables = Some [(''query'', JStr (spec_search_term E filters))]\<rparr>"
  have p: "payload_of IssueSearchFull (Some [(''query'', JStr (spec_search_term E filters))]) = ?p"
    by (simp add: payload_of_def)
  have q: "search_query E filters = Inr (spec_search_term E filters)"
    by (rule search_query_spec [OF assms])
  have l: "snd (list_tickets E filters log) = log @ [?p]"
    using graphql_request_log [of E IssueSearchFull
        "Some [(''query'', JStr (spec_search_term E filters))]" log]
    by (cases "graphql_request E IssueSearchFull
                 (Some [(''query'', JStr (spec_search_term E filters))]) log")
       (auto simp: list_tickets_def q p bind_io_def split: sum.splits)
  have r: "fst (list_tickets E filters log) = mapM_err (parse_ticket E) nodes"
    if "net E log ?p = Body result" "map_of result ''errors'' = None"
       "map_of result ''data'' = Some (JObj data)"
       "map_of data ''issueSearch'' = Some (JObj found)"
       "map_of found ''nodes'' = Some (JList nodes)"
    using that(1,2) search_nodes_shape [OF that(3,4,5)]
      graphql_request_ok [of E log IssueSearchFull
        "Some [(''query'', JStr (spec_search_term E filters))]" result]
    by (simp add: list_tickets_def q p)
  show ?thesis
    using q l r by (simp add: mapM_err_Inr_iff)
qed

theorem list_tickets_search_witness:
  "search_query test_env [(''status'', JStr ''in_progress''), (''assignee'', JStr ''john'')]
     = Inr ''status:in_progress assignee:john'' \<and>
   snd (list_tickets test_env [(''status'', JStr ''in_progress''), (''assignee'', JStr ''john'')] [])
     = [\<lparr>query = IssueSearchFull,
          variables = Some [(''query'', JStr ''status:in_progress assignee:john'')]\<rparr>] \<and>
   (\<exists>r. fst (list_tickets test_env
               [(''status'', JStr ''in_progress''), (''assignee'', JStr ''john'')] []) = Inr [r] \<and>
        parse_ticket test_env test_issue = Inr r)"
proof -
  let ?F = "[(''status'', JStr ''in_progress''), (''assignee'', JStr ''john'')]"
  have t: "spec_search_term test_env ?F = ''status:in_progress assignee:john''"
    by (simp add: spec_search_term_def fmt_def)
  have h: "\<forall>v. map_of ?F ''query'' = Some v \<longrightarrow> (\<exists>q. v = JStr q)"
    by simp
  have n: "net test_env [] \<lparr>query = IssueSearchFull,
             variables = Some [(''query'', JStr (spec_search_term test_env ?F))]\<rparr>
           = Body (search_result [test_issue])"
    by (simp add: test_env_def test_net_def)
  have e: "map_of (search_result [test_issue]) ''errors'' = None"
    by (simp add: search_result_def)
  have s: "map_of (search_result [test_issue]) ''data''
             = Some (JObj [(''issueSearch'', JObj [(''nodes'', JList [test_issue])])]) \<and>
           map_of [(''issueSearch'', JObj [(''nodes'', JList [test_issue])])] ''issueSearch''
             = Some (JObj [(''nodes'', JList [test_issue])]) \<and>
           map_of [(''nodes'', JList [test_issue])] ''nodes'' = Some (JList [test_issue])"
    by (simp add: search_result_def)
  note w = list_tickets_search [OF h, of test_env "[]" "search_result [test_issue]"
      "[(''issueSearch'', JObj [(''nodes'', JList [test_issue])])]"
      "[(''nodes'', JList [test_issue])]" "[test_issue]"]
  from w have 1: "search_query test_env ?F = Inr ''status:in_progress assignee:john''"
    by (simp only: t)
  from w have 2: "snd (list_tickets test_env ?F []) = [\<lparr>query = IssueSearchFull,
          variables = Some [(''query'', JStr ''status:in_progress assignee:john'')]\<rparr>]"
    by (simp only: t append_Nil)
  from w n e s have "\<forall>rs. fst (list_tickets test_env ?F []) = Inr rs \<longleftrightarrow>
                list_all2 (\<lambda>node r. parse_ticket test_env node = Inr r) [test_issue] rs"
    by blast
  then have 3: "fst (list_tickets test_env ?F []) = Inr [r]"
    if "parse_ticket test_env test_issue = Inr r" for r
    using that by simp
  show ?thesis
    using 1 2 3 [OF parse_test_issue] parse_test_issue by blast
qed

subsection \<open>Mutation inputs\<close>

lemma map_of_add_kwargs:
  assumes "distinct (map fst kwargs)"
  shows "map_of (add_kwargs i kwargs) k =
           (case map_of kwargs k of
              Some v \<Rightarrow> if v \<noteq> JNull then Some v else map_of i k
            | None \<Rightarrow> map_of i k)"
  using assms
proof (induction kwargs arbitrary: i)
  case Nil
  then show ?case by simp
next
  case (Cons kv kwargs)
  obtain k' v' where kv: "kv = (k', v')" by (cases kv)
  from Cons.prems have d: "distinct (map fst kwargs)" and n: "map_of kwargs k' = None"
    by (auto simp: kv map_of_eq_None_iff)
  show ?case
    using n by (auto simp: kv Cons.IH [OF d] map_of_dict_set split: option.splits)
qed

lemma map_of_add_kwargs_absent:
  assumes "k \<notin> fst ` set kwargs"
  shows "map_of (add_kwargs i kwargs) k = map_of i k"
  using assms by (induction kwargs arbitrary: i) (auto simp: map_of_dict_set)

lemma map_of_copy_field_apply:
  "map_of (copy_field flds src dst i) k =
     (if k = dst \<and> map_of flds src \<noteq> None then map_of flds src else map_of i k)"
  by (auto simp: copy_field_def map_of_dict_set split: option.splits)

lemma update_input_all_mapped:
  "list_all (\<lambda>(src, dst). \<forall>v. map_of flds src = Some v \<longrightarrow>
                                 map_of (update_input flds) dst = Some v)
     remote_names"
  by (simp add: remote_names_def update_input_def Let_def map_of_copy_field_apply)

lemma update_input_mapped:
  assumes "(src, dst) \<in> set remote_names" and "map_of flds src = Some v"
  shows "map_of (update_input flds) dst = Some v"
  using update_input_all_mapped [of flds] assms unfolding list_all_iff by blast

lemma copy_field_filter:
  assumes "P src"
  shows "copy_field (filter (\<lambda>kv. P (fst kv)) flds) src dst i = copy_field flds src dst i"
proof -
  have "map_of (filter (\<lambda>kv. P (fst kv)) flds) src = map_of flds src"
    using assms by (induction flds) auto
  then show ?thesis by (simp add: copy_field_def)
qed

lemma update_input_filter:
  "update_input (filter (\<lambda>kv. fst kv \<in> fst ` set remote_names) flds) = update_input flds"
proof -
  have c: "copy_field (filter (\<lambda>kv. fst kv \<in> fst ` set remote_names) flds) src dst i
           = copy_field flds src dst i"
    if "src \<in> fst ` set remote_names" for src dst i
    using copy_field_filter [of "\<lambda>x. x \<in> fst ` set remote_names" src flds dst i] that by simp
  have m: "''title'' \<in> fst ` set remote_names" "''description'' \<in> fst ` set remote_names"
    "''priority'' \<in> fst ` set remote_names" "''labels'' \<in> fst ` set remote_names"
    "''state_id'' \<in> fst ` set remote_names" "''assignee_id'' \<in> fst ` set remote_names"
    "''project_id'' \<in> fst ` set remote_names"
    by (simp_all add: remote_names_def)
  show ?thesis
    unfolding update_input_def Let_def by (simp only: c [OF m(1)] c [OF m(2)] c [OF m(3)]
        c [OF m(4)] c [OF m(5)] c [OF m(6)] c [OF m(7)])
qed

lemma update_filter:
  "update E tid (filter (\<lambda>kv. fst kv \<in> fst ` set remote_names) flds) = update E tid flds"
  by (simp add: update_def update_input_filter fun_eq_iff)

lemma create_log:
  "snd (create E A ttl desc team proj prio lbls kwargs log) =
     log @ [\<lparr>query = CreateIssue,
              variables = Some [(''input'', JObj (create_input A ttl desc team proj prio lbls kwargs))]\<rparr>]"
proof -
  let ?vars = "Some [(''input'', JObj (create_input A ttl desc team proj prio lbls kwargs))]"
  obtain r where g: "graphql_request E CreateIssue ?vars log = (r, log @ [payload_of CreateIssue ?vars])"
    using graphql_request_log [of E CreateIssue ?vars log]
    by (cases "graphql_request E CreateIssue ?vars log") auto
  show ?thesis
    by (cases r) (simp_all add: create_def Let_def g payload_of_def)
qed

lemma update_ok_log:
  assumes "fst (update E tid flds log) = Inr ()"
  shows "\<exists>issue_id. truthy issue_id \<and> snd (update E tid flds log) =
           log @ [\<lparr>query = IssueSearchIds, variables = Some [(''query'', JStr tid)]\<rparr>,
                  \<lparr>query = UpdateIssue,
                   variables = Some [(''id'', issue_id), (''input'', JObj (update_input flds))]\<rparr>]"
proof -
  let ?v1 = "Some [(''query'', JStr tid)]"
  let ?p1 = "\<lparr>query = IssueSearchIds, variables = ?v1\<rparr>"
  obtain r1 where g1: "graphql_request E IssueSearchIds ?v1 log = (r1, log @ [?p1])"
    using graphql_request_log [of E IssueSearchIds ?v1 log]
    by (cases "graphql_request E IssueSearchIds ?v1 log") (auto simp: payload_of_def)
  from assms obtain result where r1: "r1 = Inr result"
    by (cases r1) (simp_all add: update_def Let_def g1)
  from assms obtain issue_id where f: "find_issue_id tid result = Inr issue_id"
    by (cases "find_issue_id tid result") (simp_all add: update_def Let_def g1 r1)
  from assms have t: "truthy issue_id"
    by (cases "truthy issue_id") (simp_all add: update_def Let_def g1 r1 f)
  let ?v2 = "Some [(''id'', issue_id), (''input'', JObj (update_input flds))]"
  let ?p2 = "\<lparr>query = UpdateIssue, variables = ?v2\<rparr>"
  obtain r2 where g2: "graphql_request E UpdateIssue ?v2 (log @ [?p1]) = (r2, (log @ [?p1]) @ [?p2])"
    using graphql_request_log [of E UpdateIssue ?v2 "log @ [?p1]"]
    by (cases "graphql_request E UpdateIssue ?v2 (log @ [?p1])") (auto simp: payload_of_def)
  have "snd (update E tid flds log) = log @ [?p1, ?p2]"
    by (cases r2) (simp_all add: update_def Let_def g1 r1 f t g2)
  with t show ?thesis by blast
qed

lemma create_input_kwargs:
  "create_input A ttl desc team proj prio lbls kwargs =
     add_kwargs (create_input A ttl desc team proj prio lbls []) kwargs"
  by (simp add: create_input_def Let_def)

lemma map_of_create_input:
  assumes "distinct (map fst kwargs)"
  shows "map_of (create_input A ttl desc team proj prio lbls kwargs) k =
           (case map_of kwargs k of
              Some v \<Rightarrow> if v \<noteq> JNull then Some v
                        else map_of (create_input A ttl desc team proj prio lbls []) k
            | None \<Rightarrow> map_of (create_input A ttl desc team proj prio lbls []) k)"
  by (subst create_input_kwargs) (simp add: map_of_add_kwargs [OF assms])

lemma map_of_create_input_absent:
  assumes "k \<notin> fst ` set kwargs"
  shows "map_of (create_input A ttl desc team proj prio lbls kwargs) k =
           map_of (create_input A ttl desc team proj prio lbls []) k"
  by (subst create_input_kwargs) (simp add: map_of_add_kwargs_absent [OF assms])

lemma create_input_base:
  "map_of (create_input A ttl desc team proj prio lbls []) ''description'' =
     (case desc of Some d \<Rightarrow> if d \<noteq> [] then Some (JStr d) else None | None \<Rightarrow> None)"
  "map_of (create_input A ttl desc team proj prio lbls []) ''priority'' = map_option JInt prio"
  "map_of (create_input A ttl desc team proj prio lbls []) ''projectId'' =
     (case proj of Some p \<Rightarrow> if p \<noteq> [] then Some (JStr p) else None | None \<Rightarrow> None)"
  "map_of (create_input A ttl desc team proj prio lbls []) ''labelIds'' =
     (case lbls of Some ls \<Rightarrow> if ls \<noteq> [] then Some (JList (map JStr ls)) else None
      | None \<Rightarrow> None)"
  by (cases desc; cases prio; cases proj; cases lbls;
      simp add: create_input_def Let_def map_of_dict_set)+

lemma update_test_env_log:
  "update test_env ''DBC-123'' flds log =
     (Inr (), log @ [\<lparr>query = IssueSearchIds, variables = Some [(''query'', JStr ''DBC-123'')]\<rparr>,
                     \<lparr>query = UpdateIssue,
                      variables = Some [(''id'', JStr ''issue-uuid''),
                                        (''input'', JObj (update_input flds))]\<rparr>])"
  by (simp add: update_def Let_def bind_io_def graphql_request_def payload_of_def test_env_def
      test_net_def search_result_def success_result_def find_issue_id_def search_nodes_def
      check_success_def)

text \<open>
  C7. When \<^verbatim>\<open>update\<close> succeeds, it has sent the search and then the update mutation,
  and every supplied field of the recognized set is in the mutation's input under its
  remote name with the caller's value.
\<close>

theorem update_maps_field_names:
  assumes "fst (update E tid flds log) = Inr ()"
    and "(src, dst) \<in> set remote_names"
    and "map_of flds src = Some v"
  shows "\<exists>issue_id inp.
           snd (update E tid flds log) =
             log @ [\<lparr>query = IssueSearchIds, variables = Some [(''query'', JStr tid)]\<rparr>,
                    \<lparr>query = UpdateIssue,
                     variables = Some [(''id'', issue_id), (''input'', JObj inp)]\<rparr>]
           \<and> map_of inp dst = Some v"
  using update_ok_log [OF assms(1)] update_input_mapped [OF assms(2,3)] by blast

theorem update_maps_field_names_witness:
  "\<exists>issue_id inp.
     snd (update test_env ''DBC-123'' [(''title'', JStr ''X''), (''labels'', JList [JStr ''l1''])] []) =
       [\<lparr>query = IssueSearchIds, variables = Some [(''query'', JStr ''DBC-123'')]\<rparr>,
        \<lparr>query = UpdateIssue, variables = Some [(''id'', issue_id), (''input'', JObj inp)]\<rparr>]
     \<and> map_of inp ''labelIds'' = Some (JList [JStr ''l1''])"
  using update_maps_field_names [of test_env "''DBC-123''"
      "[(''title'', JStr ''X''), (''labels'', JList [JStr ''l1''])]" "[]"
      "''labels''" "''labelIds''" "JList [JStr ''l1'']"]
  by (simp add: update_test_env_log remote_names_def)

text \<open>
  C4, as stated, fails for \<^verbatim>\<open>update\<close>: the field \<^verbatim>\<open>foo\<close> does not reach the
  input of the mutation.
\<close>

theorem update_drops_unrecognized_field:
  "update test_env ''DBC-123'' [(''foo'', JInt 1)] [] =
     (Inr (), [\<lparr>query = IssueSearchIds, variables = Some [(''query'', JStr ''DBC-123'')]\<rparr>,
               \<lparr>query = UpdateIssue,
                variables = Some [(''id'', JStr ''issue-uuid''), (''input'', JObj [])]\<rparr>])"
  by (simp add: update_test_env_log update_input_def copy_field_def)

text \<open>
  C4, amended. \<^verbatim>\<open>create\<close> passes every extra keyword field whose value is not
  \<^verbatim>\<open>None\<close> into the creation input under its own name and with its value;
  \<^verbatim>\<open>update\<close> ignores every field outside its recognized set.
\<close>

theorem extra_fields_passed_by_create_ignored_by_update:
  "(distinct (map fst kwargs) \<and> (k, v) \<in> set kwargs \<and> v \<noteq> JNull \<longrightarrow>
      (\<exists>inp. snd (create E A ttl desc team proj prio lbls kwargs log) =
                log @ [\<lparr>query = CreateIssue, variables = Some [(''input'', JObj inp)]\<rparr>]
             \<and> map_of inp k = Some v))
   \<and> update E tid flds log =
       update E tid (filter (\<lambda>kv. fst kv \<in> fst ` set remote_names) flds) log"
proof -
  have "map_of (create_input A ttl desc team proj prio lbls kwargs) k = Some v"
    if "distinct (map fst kwargs)" "(k, v) \<in> set kwargs" "v \<noteq> JNull"
    using that by (simp add: map_of_create_input)
  then show ?thesis
    using create_log [of E A ttl desc team proj prio lbls kwargs log]
    by (simp add: update_filter)
qed

theorem extra_fields_passed_by_create_ignored_by_update_witness:
  "(\<exists>inp. snd (create test_env test_adapter ''New ticket'' None None None None None
                 [(''assigneeId'', JStr ''user-1'')] []) =
            [\<lparr>query = CreateIssue, variables = Some [(''input'', JObj inp)]\<rparr>]
          \<and> map_of inp ''assigneeId'' = Some (JStr ''user-1''))
   \<and> update test_env ''DBC-123'' [(''foo'', JInt 1), (''title'', JStr ''X'')] [] =
       update test_env ''DBC-123'' [(''title'', JStr ''X'')] []"
  using extra_fields_passed_by_create_ignored_by_update [of "[(''assigneeId'', JStr ''user-1'')]"
      "''assigneeId''" "JStr ''user-1''" test_env test_adapter "''New ticket''" None None None None
      None "[]" "''DBC-123''" "[(''foo'', JInt 1), (''title'', JStr ''X'')]"]
  by (simp add: remote_names_def)

subsection \<open>Creating a ticket\<close>

text \<open>
  C10. \<^verbatim>\<open>create\<close> sends one request, whose input has no \<^verbatim>\<open>description\<close>,
  \<^verbatim>\<open>projectId\<close> or \<^verbatim>\<open>labelIds\<close> when the argument is absent or false (an empty
  string, an empty list) and no extra field supplies that key; has the priority exactly
  when it is not \<^verbatim>\<open>None\<close>, 0 included; and is left as it would be without them by the
  extra fields whose value is \<^verbatim>\<open>None\<close>.
\<close>

theorem create_omits_falsy_fields:
  "\<exists>inp. snd (create E A ttl desc team proj prio lbls kwargs log) =
           log @ [\<lparr>query = CreateIssue, variables = Some [(''input'', JObj inp)]\<rparr>]
     \<and> ((desc = None \<or> desc = Some []) \<and> ''description'' \<notin> fst ` set kwargs \<longrightarrow>
          map_of inp ''description'' = None)
     \<and> ((proj = None \<or> proj = Some []) \<and> ''projectId'' \<notin> fst ` set kwargs \<longrightarrow>
          map_of inp ''projectId'' = None)
     \<and> ((lbls = None \<or> lbls = Some []) \<and> ''labelIds'' \<notin> fst ` set kwargs \<longrightarrow>
          map_of inp ''labelIds'' = None)
     \<and> (''priority'' \<notin> fst ` set kwargs \<longrightarrow> map_of inp ''priority'' = map_option JInt prio)
     \<and> (\<forall>k. distinct (map fst kwargs) \<and> (k, JNull) \<in> set kwargs \<longrightarrow>
            map_of inp k = map_of (create_input A ttl desc team proj prio lbls []) k)"
proof (intro exI conjI impI allI)
  show "snd (create E A ttl desc team proj prio lbls kwargs log) =
           log @ [\<lparr>query = CreateIssue,
                   variables = Some [(''input'', JObj (create_input A ttl desc team proj prio lbls kwargs))]\<rparr>]"
    by (rule create_log)
next
  assume a: "(desc = None \<or> desc = Some []) \<and> ''description'' \<notin> fst ` set kwargs"
  then have "''description'' \<notin> fst ` set kwargs" by (rule conjunct2)
  from map_of_create_input_absent [OF this] a
  show "map_of (create_input A ttl desc team proj prio lbls kwargs) ''description'' = None"
    by (auto simp: create_input_base(1))
next
  assume a: "(proj = None \<or> proj = Some []) \<and> ''projectId'' \<notin> fst ` set kwargs"
  then have "''projectId'' \<notin> fst ` set kwargs" by (rule conjunct2)
  from map_of_create_input_absent [OF this] a
  show "map_of (create_input A ttl desc team proj prio lbls kwargs) ''projectId'' = None"
    by (auto simp: create_input_base(3))
next
  assume a: "(lbls = None \<or> lbls = Some []) \<and> ''labelIds'' \<notin> fst ` set kwargs"
  then have "''labelIds'' \<notin> fst ` set kwargs" by (rule conjunct2)
  from map_of_create_input_absent [OF this] a
  show "map_of (create_input A ttl desc team proj prio lbls kwargs) ''labelIds'' = None"
    by (auto simp: create_input_base(4))
next
  assume "''priority'' \<notin> fst ` set kwargs"
  from map_of_create_input_absent [OF this]
  show "map_of (create_input A ttl desc team proj prio lbls kwargs) ''priority''
        = map_option JInt prio"
    by (simp add: create_input_base(2))
next
  fix k
  assume a: "distinct (map fst kwargs) \<and> (k, JNull) \<in> set kwargs"
  then have d: "distinct (map fst kwargs)" and m: "map_of kwargs k = Some JNull"
    by simp_all
  show "map_of (create_input A ttl desc team proj prio lbls kwargs) k
        = map_of (create_input A ttl desc team proj prio lbls []) k"
    by (simp add: map_of_create_input [OF d] m)
qed

theorem create_omits_falsy_fields_witness:
  "\<exists>inp. snd (create test_env test_adapter ''New ticket'' (Some []) None (Some []) (Some 0)
                (Some []) [(''stateId'', JNull), (''assigneeId'', JStr ''user-1'')] []) =
           [\<lparr>query = CreateIssue, variables = Some [(''input'', JObj inp)]\<rparr>]
     \<and> map_of inp ''description'' = None
     \<and> map_of inp ''projectId'' = None
     \<and> map_of inp ''labelIds'' = None
     \<and> map_of inp ''priority'' = Some (JInt 0)
     \<and> map_of inp ''stateId'' = None"
proof -
  let ?K = "[(''stateId'', JNull), (''assigneeId'', JStr ''user-1'')]"
  let ?base = "create_input test_adapter ''New ticket'' (Some []) None (Some []) (Some 0) (Some []) []"
  from create_omits_falsy_fields [of test_env test_adapter "''New ticket''" "Some []" None
      "Some []" "Some 0" "Some []" ?K "[]"]
  obtain inp where
    1: "snd (create test_env test_adapter ''New ticket'' (Some []) None (Some []) (Some 0)
              (Some []) ?K []) =
          [] @ [\<lparr>query = CreateIssue, variables = Some [(''input'', JObj inp)]\<rparr>]"
    and 2: "(Some [] = (None :: string option) \<or> Some [] = (Some [] :: string option)) \<and>
            ''description'' \<notin> fst ` set ?K \<longrightarrow> map_of inp ''description'' = None"
    and 3: "(Some [] = (None :: string option) \<or> Some [] = (Some [] :: string option)) \<and>
            ''projectId'' \<notin> fst ` set ?K \<longrightarrow> map_of inp ''projectId'' = None"
    and 4: "(Some [] = (None :: string list option) \<or> Some [] = (Some [] :: string list option)) \<and>
            ''labelIds'' \<notin> fst ` set ?K \<longrightarrow> map_of inp ''labelIds'' = None"
    and 5: "''priority'' \<notin> fst ` set ?K \<longrightarrow> map_of inp ''priority'' = map_option JInt (Some 0)"
    and 6: "\<forall>k. distinct (map fst ?K) \<and> (k, JNull) \<in> set ?K \<longrightarrow>
              map_of inp k = map_of ?base k"
    by blast
  from 1 have a: "snd (create test_env test_adapter ''New ticket'' (Some []) None (Some [])
                        (Some 0) (Some []) ?K []) =
          [\<lparr>query = CreateIssue, variables = Some [(''input'', JObj inp)]\<rparr>]"
    by simp
  from 2 have b: "map_of inp ''description'' = None" by simp
  from 3 have c: "map_of inp ''projectId'' = None" by simp
  from 4 have d: "map_of inp ''labelIds'' = None" by simp
  from 5 have e: "map_of inp ''priority'' = Some (JInt 0)" by simp
  have "map_of ?base ''stateId'' = None"
    by (simp add: create_input_def Let_def)
  with 6 [rule_format, of "''stateId''"] have f: "map_of inp ''stateId'' = None" by simp
  from a b c d e f show ?thesis by blast
qed

subsection \<open>Transitions\<close>

lemma bind_io_lift:
  "bind_io (lift_io r) f log = (case r of Inl e \<Rightarrow> (Inl e, log) | Inr x \<Rightarrow> f x log)"
  by (simp add: bind_io_def split: sum.splits)

lemma get_log:
  "snd (get E tid log) =
     log @ [\<lparr>query = IssueSearchFull, variables = Some [(''query'', JStr tid)]\<rparr>]"
proof -
  let ?v = "Some [(''query'', JStr tid)]"
  obtain r where g: "graphql_request E IssueSearchFull ?v log
                     = (r, log @ [payload_of IssueSearchFull ?v])"
    using graphql_request_log [of E IssueSearchFull ?v log]
    by (cases "graphql_request E IssueSearchFull ?v log") auto
  show ?thesis
    by (cases r) (simp_all add: get_def g payload_of_def)
qed

lemma add_comment_ok_log:
  assumes "fst (add_comment E tid body log) = Inr ()"
  shows "\<exists>issue_id. truthy issue_id \<and> snd (add_comment E tid body log) =
           log @ [\<lparr>query = IssueSearchIds, variables = Some [(''query'', JStr tid)]\<rparr>,
                  \<lparr>query = CreateComment,
                   variables = Some [(''input'', JObj [(''issueId'', issue_id),
                                                       (''body'', JStr body)])]\<rparr>]"
proof -
  let ?v1 = "Some [(''query'', JStr tid)]"
  let ?p1 = "\<lparr>query = IssueSearchIds, variables = ?v1\<rparr>"
  obtain r1 where g1: "graphql_request E IssueSearchIds ?v1 log = (r1, log @ [?p1])"
    using graphql_request_log [of E IssueSearchIds ?v1 log]
    by (cases "graphql_request E IssueSearchIds ?v1 log") (auto simp: payload_of_def)
  from assms obtain result where r1: "r1 = Inr result"
    by (cases r1) (simp_all add: add_comment_def g1)
  from assms obtain issue_id where f: "find_issue_id tid result = Inr issue_id"
    by (cases "find_issue_id tid result") (simp_all add: add_comment_def g1 r1)
  from assms have t: "truthy issue_id"
    by (cases "truthy issue_id") (simp_all add: add_comment_def g1 r1 f)
  let ?v2 = "Some [(''input'', JObj [(''issueId'', issue_id), (''body'', JStr body)])]"
  let ?p2 = "\<lparr>query = CreateComment, variables = ?v2\<rparr>"
  obtain r2 where g2: "graphql_request E CreateComment ?v2 (log @ [?p1])
                       = (r2, (log @ [?p1]) @ [?p2])"
    using graphql_request_log [of E CreateComment ?v2 "log @ [?p1]"]
    by (cases "graphql_request E CreateComment ?v2 (log @ [?p1])") (auto simp: payload_of_def)
  have "snd (add_comment E tid body log) = log @ [?p1, ?p2]"
    by (cases r2) (simp_all add: add_comment_def g1 r1 f t g2)
  with t show ?thesis by blast
qed

text \<open>The steps of a transition that returns.\<close>

lemma transition_ok:
  assumes "fst (transition E A tid to_status note blocked_by log) = Inr r"
  obtains t log1 state_id log2 log3 where
    "get E tid log = (Inr t, log1)"
    "resolve_state_id A to_status = Inr state_id"
    "update E tid [(''state_id'', JStr state_id)] log1 = (Inr (), log2)"
    "(case note of Some n \<Rightarrow> if n \<noteq> [] then add_comment E tid n else lift_io (Inr ())
      | None \<Rightarrow> lift_io (Inr ())) log2 = (Inr (), log3)"
    "transition E A tid to_status note blocked_by log =
       (Inr \<lparr>ticket_id = tid,
              previous_status = status t,
              new_status = to_status,
              event_type =
                (if to_status = ''blocked'' \<or>
                    (case blocked_by of Some bs \<Rightarrow> bs \<noteq> [] | None \<Rightarrow> False)
                 then ''blocked''
                 else if status t = JStr ''blocked'' \<and> to_status \<noteq> ''blocked''
                 then ''unblocked''
                 else ''status_changed''),
              elapsed_minutes = None\<rparr>, log3)"
proof -
  let ?c = "case note of Some n \<Rightarrow> if n \<noteq> [] then add_comment E tid n else lift_io (Inr ())
            | None \<Rightarrow> lift_io (Inr ())"
  obtain g log1 where g: "get E tid log = (g, log1)"
    by (cases "get E tid log")
  from assms obtain t where t: "g = Inr t"
    by (cases g) (simp_all add: transition_def g)
  from assms obtain state_id where s: "resolve_state_id A to_status = Inr state_id"
    by (cases "resolve_state_id A to_status") (simp_all add: transition_def g t bind_io_lift)
  obtain u log2 where u: "update E tid [(''state_id'', JStr state_id)] log1 = (u, log2)"
    by (cases "update E tid [(''state_id'', JStr state_id)] log1")
  from assms have u': "u = Inr ()"
    by (cases u) (simp_all add: transition_def g t s bind_io_lift u)
  obtain c log3 where c: "?c log2 = (c, log3)"
    by (cases "?c log2")
  from assms have c': "c = Inr ()"
    by (cases c) (simp_all add: transition_def g t s bind_io_lift u u' c)
  show ?thesis
    by (rule that [OF g [unfolded t] s u [unfolded u'] c [unfolded c']])
       (simp add: transition_def g t s bind_io_lift u u' c c')
qed

lemma get_test_env:
  "get test_env ''DBC-123'' log =
     (parse_ticket test_env test_issue,
      log @ [\<lparr>query = IssueSearchFull, variables = Some [(''query'', JStr ''DBC-123'')]\<rparr>])"
  by (simp add: get_def bind_io_def graphql_request_def payload_of_def test_env_def test_net_def
      search_result_def search_nodes_def test_issue_def test_fields_def)

lemma add_comment_test_env:
  "add_comment test_env ''DBC-123'' body log =
     (Inr (), log @ [\<lparr>query = IssueSearchIds, variables = Some [(''query'', JStr ''DBC-123'')]\<rparr>,
                     \<lparr>query = CreateComment,
                      variables = Some [(''input'', JObj [(''issueId'', JStr ''issue-uuid''),
                                                          (''body'', JStr body)])]\<rparr>])"
  by (simp add: add_comment_def bind_io_def graphql_request_def payload_of_def test_env_def
      test_net_def search_result_def success_result_def find_issue_id_def search_nodes_def
      check_success_def)

lemma resolve_in_progress:
  "resolve_state_id test_adapter ''in_progress'' = Inr ''77631f63-b27b-45a5-8b04-f9f82b4facde''"
  by (simp add: resolve_state_id_def re_match_uuid_def test_adapter_def)

lemma transition_test_env:
  "transition test_env test_adapter ''DBC-123'' ''in_progress'' note blocked_by [] =
     (Inr \<lparr>ticket_id = ''DBC-123'',
            previous_status = JStr ''Backlog'',
            new_status = ''in_progress'',
            event_type = (if (case blocked_by of Some bs \<Rightarrow> bs \<noteq> [] | None \<Rightarrow> False)
                          then ''blocked'' else ''status_changed''),
            elapsed_minutes = None\<rparr>,
      [\<lparr>query = IssueSearchFull, variables = Some [(''query'', JStr ''DBC-123'')]\<rparr>,
       \<lparr>query = IssueSearchIds, variables = Some [(''query'', JStr ''DBC-123'')]\<rparr>,
       \<lparr>query = UpdateIssue,
        variables = Some [(''id'', JStr ''issue-uuid''),
                          (''input'', JObj [(''stateId'',
                                             JStr ''77631f63-b27b-45a5-8b04-f9f82b4facde'')])]\<rparr>]
      @ (case note of
           None \<Rightarrow> []
         | Some n \<Rightarrow>
             if n = [] then []
             else [\<lparr>query = IssueSearchIds, variables = Some [(''query'', JStr ''DBC-123'')]\<rparr>,
                   \<lparr>query = CreateComment,
                    variables = Some [(''input'', JObj [(''issueId'', JStr ''issue-uuid''),
                                                        (''body'', JStr n)])]\<rparr>]))"
  by (simp add: transition_def get_test_env parse_test_issue bind_io_lift resolve_in_progress
      update_test_env_log add_comment_test_env update_input_def copy_field_def
      split: option.splits)

text \<open>
  C1, as stated, fails when the blocking-ticket list that is supplied is empty: the
  transition from \<^verbatim>\<open>Backlog\<close> to \<^verbatim>\<open>in_progress\<close> with \<^verbatim>\<open>blocked_by=[]\<close>
  is a plain status change.
\<close>

theorem transition_empty_blocked_by:
  "fst (transition test_env test_adapter ''DBC-123'' ''in_progress'' None (Some []) []) =
     Inr \<lparr>ticket_id = ''DBC-123'',
           previous_status = JStr ''Backlog'',
           new_status = ''in_progress'',
           event_type = ''status_changed'',
           elapsed_minutes = None\<rparr>"
  by (simp add: transition_test_env)

text \<open>
  C1, amended. The event type of the result of a transition is \<^verbatim>\<open>blocked\<close> if the
  target status is the token \<^verbatim>\<open>blocked\<close> or a non-empty blocking-ticket list was
  supplied; else \<^verbatim>\<open>unblocked\<close> if the previous status, which is the status of the
  record that \<^verbatim>\<open>get\<close> fetched before the update, is \<^verbatim>\<open>blocked\<close>; else
  \<^verbatim>\<open>status_changed\<close>.
\<close>

theorem transition_event_type:
  assumes "fst (transition E A tid to_status note blocked_by log) = Inr r"
  shows "\<exists>t. fst (get E tid log) = Inr t \<and> previous_status r = status t \<and>
             event_type r =
               (if to_status = ''blocked'' \<or> (\<exists>bs. blocked_by = Some bs \<and> bs \<noteq> [])
                then ''blocked''
                else if status t = JStr ''blocked'' then ''unblocked''
                else ''status_changed'')"
proof -
  from assms obtain t log1 log3 where
    g: "get E tid log = (Inr t, log1)" and
    r: "transition E A tid to_status note blocked_by log =
       (Inr \<lparr>ticket_id = tid,
              previous_status = status t,
              new_status = to_status,
              event_type =
                (if to_status = ''blocked'' \<or>
                    (case blocked_by of Some bs \<Rightarrow> bs \<noteq> [] | None \<Rightarrow> False)
                 then ''blocked''
                 else if status t = JStr ''blocked'' \<and> to_status \<noteq> ''blocked''
                 then ''unblocked''
                 else ''status_changed''),
              elapsed_minutes = None\<rparr>, log3)"
    by (rule transition_ok)
  from assms r have
    "r = \<lparr>ticket_id = tid,
              previous_status = status t,
              new_status = to_status,
              event_type =
                (if to_status = ''blocked'' \<or>
                    (case blocked_by of Some bs \<Rightarrow> bs \<noteq> [] | None \<Rightarrow> False)
                 then ''blocked''
                 else if status t = JStr ''blocked'' \<and> to_status \<noteq> ''blocked''
                 then ''unblocked''
                 else ''status_changed''),
              elapsed_minutes = None\<rparr>"
    by simp
  then have "previous_status r = status t" and
    "event_type r =
       (if to_status = ''blocked'' \<or> (\<exists>bs. blocked_by = Some bs \<and> bs \<noteq> [])
        then ''blocked''
        else if status t = JStr ''blocked'' then ''unblocked''
        else ''status_changed'')"
    by (simp_all split: option.splits)
  with g show ?thesis by simp
qed

theorem transition_event_type_witness:
  "fst (transition test_env test_adapter ''DBC-123'' ''in_progress'' None (Some [''DBC-100'']) [])
     = Inr \<lparr>ticket_id = ''DBC-123'', previous_status = JStr ''Backlog'',
             new_status = ''in_progress'', event_type = ''blocked'',
             elapsed_minutes = None\<rparr> \<and>
   (\<exists>t. fst (get test_env ''DBC-123'' []) = Inr t \<and> status t = JStr ''Backlog'')"
proof -
  have h: "fst (transition test_env test_adapter ''DBC-123'' ''in_progress'' None
                  (Some [''DBC-100'']) []) =
           Inr \<lparr>ticket_id = ''DBC-123'', previous_status = JStr ''Backlog'',
                 new_status = ''in_progress'', event_type = ''blocked'',
                 elapsed_minutes = None\<rparr>"
    by (simp add: transition_test_env)
  from transition_event_type [OF h] have
    "\<exists>t. fst (get test_env ''DBC-123'' []) = Inr t \<and> status t = JStr ''Backlog''"
    by auto
  with h show ?thesis by simp
qed

text \<open>
  C8, as stated, fails when the note that is given is empty: the transition returns
  after the update mutation, and no comment is created.
\<close>

theorem transition_empty_note:
  "transition test_env test_adapter ''DBC-123'' ''in_progress'' (Some []) None [] =
     (Inr \<lparr>ticket_id = ''DBC-123'',
            previous_status = JStr ''Backlog'',
            new_status = ''in_progress'',
            event_type = ''status_changed'',
            elapsed_minutes = None\<rparr>,
      [\<lparr>query = IssueSearchFull, variables = Some [(''query'', JStr ''DBC-123'')]\<rparr>,
       \<lparr>query = IssueSearchIds, variables = Some [(''query'', JStr ''DBC-123'')]\<rparr>,
       \<lparr>query = UpdateIssue,
        variables = Some [(''id'', JStr ''issue-uuid''),
                          (''input'', JObj [(''stateId'',
                                             JStr ''77631f63-b27b-45a5-8b04-f9f82b4facde'')])]\<rparr>])"
  by (simp add: transition_test_env)

text \<open>
  C8, amended. A transition that returns and was given a non-empty note has sent, in this
  order, the search of \<^verbatim>\<open>get\<close>, the search and the mutation of the state update
  (whose input is the resolved state), and then the search and the comment-creation
  mutation whose body is the note.
\<close>

theorem transition_note_comment:
  assumes "fst (transition E A tid to_status (Some n) blocked_by log) = Inr r"
    and "n \<noteq> []"
  shows "\<exists>state_id issue_id issue_id'.
           resolve_state_id A to_status = Inr state_id \<and>
           snd (transition E A tid to_status (Some n) blocked_by log) =
             log @ [\<lparr>query = IssueSearchFull, variables = Some [(''query'', JStr tid)]\<rparr>,
                    \<lparr>query = IssueSearchIds, variables = Some [(''query'', JStr tid)]\<rparr>,
                    \<lparr>query = UpdateIssue,
                     variables = Some [(''id'', issue_id),
                                       (''input'', JObj [(''stateId'', JStr state_id)])]\<rparr>,
                    \<lparr>query = IssueSearchIds, variables = Some [(''query'', JStr tid)]\<rparr>,
                    \<lparr>query = CreateComment,
                     variables = Some [(''input'', JObj [(''issueId'', issue_id'),
                                                         (''body'', JStr n)])]\<rparr>]"
proof -
  from assms(1) obtain t log1 state_id log2 log3 where
    g: "get E tid log = (Inr t, log1)" and
    s: "resolve_state_id A to_status = Inr state_id" and
    u: "update E tid [(''state_id'', JStr state_id)] log1 = (Inr (), log2)" and
    c: "(case Some n of Some n \<Rightarrow> if n \<noteq> [] then add_comment E tid n else lift_io (Inr ())
         | None \<Rightarrow> lift_io (Inr ())) log2 = (Inr (), log3)" and
    r: "snd (transition E A tid to_status (Some n) blocked_by log) = log3"
    by (rule transition_ok) simp
  from c assms(2) have c': "add_comment E tid n log2 = (Inr (), log3)"
    by simp
  have l1: "log1 = log @ [\<lparr>query = IssueSearchFull, variables = Some [(''query'', JStr tid)]\<rparr>]"
    using get_log [of E tid log] g by simp
  from u obtain issue_id where l2:
    "log2 = log1 @ [\<lparr>query = IssueSearchIds, variables = Some [(''query'', JStr tid)]\<rparr>,
                    \<lparr>query = UpdateIssue,
                     variables = Some [(''id'', issue_id),
                                       (''input'', JObj (update_input [(''state_id'', JStr state_id)]))]\<rparr>]"
    using update_ok_log [of E tid "[(''state_id'', JStr state_id)]" log1] by auto
  have i: "update_input [(''state_id'', JStr state_id)] = [(''stateId'', JStr state_id)]"
    by (simp add: update_input_def copy_field_def)
  from c' obtain issue_id' where l3:
    "log3 = log2 @ [\<lparr>query = IssueSearchIds, variables = Some [(''query'', JStr tid)]\<rparr>,
                    \<lparr>query = CreateComment,
                     variables = Some [(''input'', JObj [(''issueId'', issue_id'),
                                                         (''body'', JStr n)])]\<rparr>]"
    using add_comment_ok_log [of E tid n log2] by auto
  show ?thesis
    using s r l1 l2 l3 i by simp
qed

theorem transition_note_comment_witness:
  "\<exists>state_id issue_id issue_id'.
     resolve_state_id test_adapter ''in_progress'' = Inr state_id \<and>
     snd (transition test_env test_adapter ''DBC-123'' ''in_progress'' (Some ''go'') None []) =
       [\<lparr>query = IssueSearchFull, variables = Some [(''query'', JStr ''DBC-123'')]\<rparr>,
        \<lparr>query = IssueSearchIds, variables = Some [(''query'', JStr ''DBC-123'')]\<rparr>,
        \<lparr>query = UpdateIssue,
         variables = Some [(''id'', issue_id), (''input'', JObj [(''stateId'', JStr state_id)])]\<rparr>,
        \<lparr>query = IssueSearchIds, variables = Some [(''query'', JStr ''DBC-123'')]\<rparr>,
        \<lparr>query = CreateComment,
         variables = Some [(''input'', JObj [(''issueId'', issue_id'), (''body'', JStr ''go'')])]\<rparr>]"
proof -
  have h: "fst (transition test_env test_adapter ''DBC-123'' ''in_progress'' (Some ''go'') None [])
           = Inr \<lparr>ticket_id = ''DBC-123'', previous_status = JStr ''Backlog'',
                   new_status = ''in_progress'', event_type = ''status_changed'',
                   elapsed_minutes = None\<rparr>"
    by (simp add: transition_test_env)
  have n: "''go'' \<noteq> []" by simp
  from transition_note_comment [OF h n] show ?thesis
    by simp
qed

end
